(* ===== verification/Prelude.thy ===== *)
theory Prelude
  imports Main "HOL-Library.Word"
begin

text \<open>
  Shared vocabulary of the development: the machine types of the header
  \<^verbatim>\<open>system/types/bt_transport.h\<close> (\<^verbatim>\<open>uint8_t\<close> as an 8-bit word, the
  \<^verbatim>\<open>int\<close> of C++ integral promotion as \<^typ>\<open>int\<close>, \<^verbatim>\<open>std::string\<close> as a
  list of characters), the lemma collections the component theories extend,
  and generic facts on 8-bit words, characters and list prefixes/suffixes
  that the printing and parsing proofs share.
\<close>

named_theorems decimal_simps "evaluation rules for decimal digit characters"
named_theorems label_simps "evaluation rules for the transport labels"

type_synonym u8 = "8 word"
type_synonym cxx_int = int
type_synonym cxx_string = string

subsection \<open>8-bit words read as numbers\<close>

text \<open>
  An \<^verbatim>\<open>uint8_t\<close> operand is promoted to \<^verbatim>\<open>int\<close> before it is compared or
  passed to an \<^verbatim>\<open>int\<close> parameter: the promoted value is \<^term>\<open>uint t\<close>,
  which is non-negative and below 256.
\<close>

lemma unat_u8_less [simp]: "unat (t :: u8) < 256"
  using unsigned_less [of t] by simp

lemma uint_u8_bounds: "0 \<le> uint (t :: u8) \<and> uint t < 256"
  using uint_lt2p [of t] by simp

lemma uint_u8_eq_int_iff: "uint (t :: u8) = int k \<longleftrightarrow> unat t = k"
  by (metis of_nat_eq_iff uint_nat)

lemma u8_of_nat_unat [simp]: "(of_nat (unat t) :: u8) = t"
  by simp

lemma u8_eq_iff_unat: "(s :: u8) = t \<longleftrightarrow> unat s = unat t"
  by (simp add: word_unat_eq_iff)

subsection \<open>Prefixes and suffixes of lists\<close>

text \<open>
  Executable prefix and suffix removal, used by the parsers that serve as
  inverses of the printing functions.
\<close>

fun strip_prefix :: "'a list \<Rightarrow> 'a list \<Rightarrow> 'a list option" where
  "strip_prefix [] ys = Some ys"
| "strip_prefix (x # xs) [] = None"
| "strip_prefix (x # xs) (y # ys) = (if x = y then strip_prefix xs ys else None)"

definition strip_suffix :: "'a list \<Rightarrow> 'a list \<Rightarrow> 'a list option" where
  "strip_suffix xs ys = map_option rev (strip_prefix (rev xs) (rev ys))"

lemma strip_prefix_append [simp]: "strip_prefix xs (xs @ ys) = Some ys"
  by (induction xs) auto

lemma strip_prefix_Some: "strip_prefix xs ys = Some zs \<Longrightarrow> ys = xs @ zs"
  by (induction xs ys rule: strip_prefix.induct) (auto split: if_splits)

lemma strip_suffix_append [simp]: "strip_suffix ys (xs @ ys) = Some xs"
  by (simp add: strip_suffix_def)

lemma strip_suffix_Some: "strip_suffix xs ys = Some zs \<Longrightarrow> ys = zs @ xs"
proof -
  assume "strip_suffix xs ys = Some zs"
  then obtain r where r: "strip_prefix (rev xs) (rev ys) = Some r" and zs: "zs = rev r"
    by (auto simp: strip_suffix_def)
  from r have "rev ys = rev xs @ r" by (rule strip_prefix_Some)
  then have "ys = rev r @ xs" by (metis rev_append rev_rev_ident)
  with zs show ?thesis by simp
qed

end
