(* ===== verification/Decimal.thy ===== *)
theory Decimal
  imports Prelude
begin

text \<open>
  The decimal conversion the header calls in its \<^verbatim>\<open>default:\<close> branch:
  \<^verbatim>\<open>std::to_string(transport)\<close>. The argument is a \<^verbatim>\<open>uint8_t\<close>, which integral
  promotion turns into an \<^verbatim>\<open>int\<close>, so the overload called is
  \<^verbatim>\<open>std::to_string(int)\<close>. The C++ standard ([string.conversions]) specifies it
  as the text \<^verbatim>\<open>sprintf\<close> produces with the format \<^verbatim>\<open>"%d"\<close>: an optional
  minus sign followed by the decimal digits of the magnitude, most significant
  first, without leading zeros. This library function is not part of the
  repository and is modelled from that specification.

  Next to the printer the theory defines a parser of decimal numerals
  (\<open>parse_decimal\<close>) that is not code of the program: the label parser of
  theory \<open>Transport\<close> and the readers of preprocessed tokens use it, and the
  printer's round trip through it makes the labels readable back.
\<close>

subsection \<open>The printer\<close>

definition digit_char :: "nat \<Rightarrow> char" where
  "digit_char d = char_of (48 + d)"

fun decimal_digits :: "nat \<Rightarrow> cxx_string" where
  "decimal_digits n =
     (if n < 10 then [digit_char n]
      else decimal_digits (n div 10) @ [digit_char (n mod 10)])"

definition to_string :: "cxx_int \<Rightarrow> cxx_string" where
  "to_string v =
     (if v < 0 then CHR ''-'' # decimal_digits (nat (- v)) else decimal_digits (nat v))"

subsection \<open>The parser (specification only)\<close>

definition digit_value :: "char \<Rightarrow> nat option" where
  "digit_value c = (let k = of_char c in if 48 \<le> k \<and> k < 58 then Some (k - 48) else None)"

fun parse_digits :: "nat \<Rightarrow> string \<Rightarrow> nat option" where
  "parse_digits acc [] = Some acc"
| "parse_digits acc (c # cs) =
     (case digit_value c of None \<Rightarrow> None | Some d \<Rightarrow> parse_digits (10 * acc + d) cs)"

definition parse_decimal :: "string \<Rightarrow> nat option" where
  "parse_decimal s = (if s = [] then None else parse_digits 0 s)"

subsection \<open>Digit characters\<close>

lemma digit_char_values [simp, decimal_simps]:
  "digit_char 0 = CHR ''0''" "digit_char 1 = CHR ''1''" "digit_char 2 = CHR ''2''"
  "digit_char 3 = CHR ''3''" "digit_char 4 = CHR ''4''" "digit_char 5 = CHR ''5''"
  "digit_char 6 = CHR ''6''" "digit_char 7 = CHR ''7''" "digit_char 8 = CHR ''8''"
  "digit_char 9 = CHR ''9''"
  unfolding digit_char_def by code_simp+

lemma digit_value_digit_char [simp]: "d < 10 \<Longrightarrow> digit_value (digit_char d) = Some d"
  by (simp add: digit_value_def digit_char_def)

subsection \<open>Unfolding the printer\<close>

lemma decimal_digits_less [simp, decimal_simps]:
  "n < 10 \<Longrightarrow> decimal_digits n = [digit_char n]"
  by (simp add: decimal_digits.simps [of n])

lemma decimal_digits_ge [decimal_simps]:
  "\<not> n < 10 \<Longrightarrow> decimal_digits n = decimal_digits (n div 10) @ [digit_char (n mod 10)]"
  by (simp add: decimal_digits.simps [of n])

declare decimal_digits.simps [simp del]

lemma decimal_digits_nonempty [simp]: "decimal_digits n \<noteq> []"
  by (cases "n < 10") (simp_all add: decimal_digits_ge)

lemma length_decimal_digits:
  "length (decimal_digits n) = (if n < 10 then 1 else Suc (length (decimal_digits (n div 10))))"
  by (simp add: decimal_digits_ge)

subsection \<open>Properties of the printer\<close>

text \<open>
  Reading the digits back from any accumulator: the generalised form of the
  round trip, which the parser's left-to-right accumulation needs.
\<close>

lemma parse_digits_append:
  "parse_digits acc (xs @ ys) =
     (case parse_digits acc xs of None \<Rightarrow> None | Some a \<Rightarrow> parse_digits a ys)"
  by (induction xs arbitrary: acc) (auto split: option.splits)

lemma parse_digits_decimal_digits:
  "parse_digits acc (decimal_digits n) = Some (acc * 10 ^ length (decimal_digits n) + n)"
proof (induction n arbitrary: acc rule: decimal_digits.induct)
  case (1 n)
  show ?case
  proof (cases "n < 10")
    case True
    then show ?thesis by simp
  next
    case False
    let ?L = "length (decimal_digits (n div 10))"
    from False "1.IH" have "parse_digits acc (decimal_digits (n div 10)) = Some (acc * 10 ^ ?L + n div 10)"
      by simp
    then have "parse_digits acc (decimal_digits n) = Some (10 * (acc * 10 ^ ?L + n div 10) + n mod 10)"
      using False by (simp add: decimal_digits_ge parse_digits_append)
    also have "10 * (acc * 10 ^ ?L + n div 10) + n mod 10 = acc * 10 ^ Suc ?L + n"
      by (simp add: algebra_simps)
    finally show ?thesis using False by (simp add: length_decimal_digits)
  qed
qed

lemma parse_digits_zero_decimal_digits: "parse_digits 0 (decimal_digits n) = Some n"
  using parse_digits_decimal_digits [of 0 n] by simp

lemma decimal_digits_inject: "decimal_digits m = decimal_digits n \<longleftrightarrow> m = n"
  by (metis option.inject parse_digits_zero_decimal_digits)

lemma parse_decimal_decimal_digits: "parse_decimal (decimal_digits n) = Some n"
  by (simp add: parse_decimal_def parse_digits_zero_decimal_digits)

subsection \<open>Length of the printed number\<close>

lemma ten_le_pow: "0 < k \<Longrightarrow> (10 :: nat) \<le> 10 ^ k"
  by (cases k) simp_all

text \<open>
  The printed number has at most \<open>k\<close> digits exactly when it is below
  \<open>10 ^ k\<close> (for \<open>k \<ge> 1\<close>; every number prints at least one digit).
\<close>

lemma length_decimal_digits_le_iff:
  "0 < k \<Longrightarrow> length (decimal_digits n) \<le> k \<longleftrightarrow> n < 10 ^ k"
proof (induction n arbitrary: k rule: decimal_digits.induct)
  case (1 n)
  show ?case
  proof (cases "n < 10")
    case True
    with ten_le_pow [OF "1.prems"] "1.prems" show ?thesis by simp
  next
    case False
    let ?L = "length (decimal_digits (n div 10))"
    have L: "length (decimal_digits n) = Suc ?L"
      using False by (simp add: length_decimal_digits)
    show ?thesis
    proof (cases "k = 1")
      case True
      with False L show ?thesis by (simp add: Suc_le_eq)
    next
      case k: False
      with "1.prems" obtain k' where k': "k = Suc k'" "0 < k'"
        by (cases k) auto
      from "1.IH" [OF False k'(2)] have "?L \<le> k' \<longleftrightarrow> n div 10 < 10 ^ k'" .
      also have "\<dots> \<longleftrightarrow> n < 10 ^ k' * 10" by (simp add: div_less_iff_less_mult)
      finally show ?thesis using L k'(1) by (simp add: mult.commute)
    qed
  qed
qed

subsection \<open>\<^verbatim>\<open>std::to_string(int)\<close>\<close>

lemma to_string_nonneg: "0 \<le> v \<Longrightarrow> to_string v = decimal_digits (nat v)"
  by (simp add: to_string_def)

subsection \<open>The promoted byte\<close>

lemma to_string_uint: "to_string (uint (t :: u8)) = decimal_digits (unat t)"
  by (simp add: to_string_nonneg)

lemma length_decimal_digits_unat: "length (decimal_digits (unat (t :: u8))) \<le> 3"
proof -
  have "unat t < 256" by (rule unat_u8_less)
  moreover have "(256 :: nat) < 10 ^ 3" by simp
  ultimately have "unat t < 10 ^ 3" by (rule less_trans)
  then show ?thesis by (simp add: length_decimal_digits_le_iff)
qed

end
