(* ===== verification/Preproc.thy ===== *)
theory Preproc
  imports Decimal "HOL-Library.AList"
begin

text \<open>
  The C preprocessor (translation phase 4, C11 6.10 as C++ [cpp] adopts it), as
  far as \<^verbatim>\<open>bt_transport.h\<close> uses it. It is not code of the repository and is
  modelled from the standard:
  \<^item> preprocessing tokens \<open>pp_token\<close> (identifiers, pp-numbers kept as their
    spelling, punctuators, string literals kept as their contents);
  \<^item> macro definitions \<open>macro_body\<close>, object-like or function-like with a
    replacement list of tokens, parameter references and \<^verbatim>\<open>#\<close> applied to a
    parameter; the macro table is an association list \<open>macro_env\<close>;
  \<^item> macro invocation: \<open>call_args\<close> collects the arguments between balanced
    parentheses, split at top-level commas; \<open>substitute\<close> replaces parameters
    by their fully expanded arguments and \<^verbatim>\<open>#p\<close> by the string literal of the
    argument's spelling (\<open>spell\<close>, which joins tokens with one space and escapes
    \<^verbatim>\<open>"\<close> and \<^verbatim>\<open>\\\<close> in string literals);
  \<^item> \<open>expand\<close> rescans each replacement with the macro's name added to the set
    of active names, which are not expanded again (6.10.3.4p2); a function-like
    macro name not followed by \<^verbatim>\<open>(\<close> is not an invocation; an unterminated
    invocation or one with the wrong number of arguments is an error (\<open>None\<close>);
  \<^item> directives: \<^verbatim>\<open>#pragma once\<close>, which records the file being read so
    that a later inclusion of the same file is skipped (a file is named by its
    identity, as GCC and Clang recognise it, not by the path an
    \<^verbatim>\<open>#include\<close> spells), \<^verbatim>\<open>#include <h>\<close> of a system header
    (recorded; its contents are not modelled), \<^verbatim>\<open>#define\<close> (an identical
    redefinition is allowed; one with a different replacement makes the program
    ill-formed, C++ [cpp.replace]p2, C11 6.10.3p2, and is an error value here;
    GCC and Clang report it as a warning by default and as an error under
    \<^verbatim>\<open>-Werror\<close>), \<^verbatim>\<open>#undef\<close>, and text lines, which are macro-expanded and
    appended to the output.
  Simplifications: the rescan of a replacement does not continue into the tokens
  that follow the invocation, and arguments are expanded before substitution
  even when they are only stringised, so an argument whose expansion fails makes
  the invocation fail. Neither case arises in the header.
\<close>

subsection \<open>Tokens, macros and invocations\<close>

datatype pp_token = Ident string | Number string | Punct string | Str_lit string

datatype repl_item = Tok pp_token | Param nat | Stringify nat

datatype macro_body = Object_like "pp_token list" | Function_like "string list" "repl_item list"

type_synonym macro_env = "(string \<times> macro_body) list"

datatype call_args_result = Not_a_call | Unterminated_call | Call "pp_token list list" "pp_token list"

fun collect_args :: "nat \<Rightarrow> pp_token list \<Rightarrow> pp_token list list \<Rightarrow> pp_token list \<Rightarrow> call_args_result" where
  "collect_args d cur acc [] = Unterminated_call"
| "collect_args d cur acc (t # ts) =
     (if t = Punct '')'' then
        (if d = 0 then Call (rev (rev cur # acc)) ts else collect_args (d - 1) (t # cur) acc ts)
      else if t = Punct ''('' then collect_args (Suc d) (t # cur) acc ts
      else if t = Punct '','' \<and> d = 0 then collect_args d [] (rev cur # acc) ts
      else collect_args d (t # cur) acc ts)"

definition call_args :: "pp_token list \<Rightarrow> call_args_result" where
  "call_args ts =
     (case ts of
        t # rest \<Rightarrow> if t = Punct ''('' then collect_args 0 [] [] rest else Not_a_call
      | [] \<Rightarrow> Not_a_call)"

definition macro_args :: "string list \<Rightarrow> pp_token list list \<Rightarrow> pp_token list list" where
  "macro_args params args = (if params = [] \<and> args = [[]] then [] else args)"

definition escape_string :: "string \<Rightarrow> string" where
  "escape_string s = concat (map (\<lambda>c. if c = CHR ''\"'' \<or> c = CHR 0x5C then [CHR 0x5C, c] else [c]) s)"

fun token_spelling :: "pp_token \<Rightarrow> string" where
  "token_spelling (Ident s) = s"
| "token_spelling (Number s) = s"
| "token_spelling (Punct s) = s"
| "token_spelling (Str_lit s) = CHR ''\"'' # escape_string s @ [CHR ''\"'']"

fun spell :: "pp_token list \<Rightarrow> string" where
  "spell [] = []"
| "spell [t] = token_spelling t"
| "spell (t # ts) = token_spelling t @ CHR '' '' # spell ts"

fun substitute :: "pp_token list list \<Rightarrow> pp_token list list \<Rightarrow> repl_item list \<Rightarrow> pp_token list" where
  "substitute eargs args [] = []"
| "substitute eargs args (Tok t # body) = t # substitute eargs args body"
| "substitute eargs args (Param i # body) =
     (if i < length eargs then eargs ! i else []) @ substitute eargs args body"
| "substitute eargs args (Stringify i # body) =
     Str_lit (if i < length args then spell (args ! i) else []) # substitute eargs args body"

function (domintros) expand :: "macro_env \<Rightarrow> string list \<Rightarrow> pp_token list \<Rightarrow> pp_token list option" where
  "expand env act [] = Some []"
| "expand env act (Ident x # ts) =
     (if x \<in> set act then map_option (Cons (Ident x)) (expand env act ts)
      else case map_of env x of
        None \<Rightarrow> map_option (Cons (Ident x)) (expand env act ts)
      | Some (Object_like body) \<Rightarrow>
          (case expand env (x # act) body of
             None \<Rightarrow> None
           | Some r \<Rightarrow> map_option ((@) r) (expand env act ts))
      | Some (Function_like params body) \<Rightarrow>
          (case call_args ts of
             Not_a_call \<Rightarrow> map_option (Cons (Ident x)) (expand env act ts)
           | Unterminated_call \<Rightarrow> None
           | Call args rest \<Rightarrow>
               (if length (macro_args params args) \<noteq> length params then None
                else case those (map (expand env act) (macro_args params args)) of
                  None \<Rightarrow> None
                | Some eargs \<Rightarrow>
                    (case expand env (x # act) (substitute eargs (macro_args params args) body) of
                       None \<Rightarrow> None
                     | Some r \<Rightarrow> map_option ((@) r) (expand env act rest)))))"
| "expand env act (Number n # ts) = map_option (Cons (Number n)) (expand env act ts)"
| "expand env act (Punct p # ts) = map_option (Cons (Punct p)) (expand env act ts)"
| "expand env act (Str_lit s # ts) = map_option (Cons (Str_lit s)) (expand env act ts)"
  by pat_completeness auto

subsection \<open>Termination of rescanning\<close>

text \<open>
  Each nested rescan activates one more macro name of the environment, and every
  other call is on a shorter token list: the pair (number of inactive macro names,
  length of the token list) decreases lexicographically.
\<close>

lemma collect_args_Call:
  "(\<forall>a \<in> set acc. length a \<le> B) \<Longrightarrow> length cur + length ts \<le> B \<Longrightarrow>
   collect_args d cur acc ts = Call args rest \<Longrightarrow>
   (\<forall>a \<in> set args. length a \<le> B) \<and> length rest < length ts"
proof (induction d cur acc ts rule: collect_args.induct)
  case (1 d cur acc)
  then show ?case by simp
next
  case (2 d cur acc t ts)
  then show ?case by (auto split: if_splits)
qed

lemma call_args_Call:
  "call_args ts = Call args rest \<Longrightarrow> (\<forall>a \<in> set args. length a < length ts) \<and> length rest < length ts"
proof (cases ts)
  case (Cons t ts')
  assume c: "call_args ts = Call args rest"
  with Cons have "collect_args 0 [] [] ts' = Call args rest"
    by (simp add: call_args_def split: if_splits)
  then have "(\<forall>a \<in> set args. length a \<le> length ts') \<and> length rest < length ts'"
    using collect_args_Call [of "[]" "length ts'" "[]" ts' 0 args rest] by simp
  with Cons show ?thesis by auto
qed (simp add: call_args_def)

lemma macro_args_mem: "a \<in> set (macro_args params args) \<Longrightarrow> a \<in> set args"
  by (simp add: macro_args_def split: if_splits)

definition expand_measure :: "macro_env \<times> string list \<times> pp_token list \<Rightarrow> nat \<times> nat" where
  "expand_measure = (\<lambda>(env, act, ts). (card (set (map fst env) - set act), length ts))"

lemma card_active_less:
  assumes b: "map_of env x = Some b" and x: "x \<notin> A"
  shows "card (fst ` set env - insert x A) < card (fst ` set env - A)"
proof -
  from b have "x \<in> fst ` set env" by (force dest: map_of_SomeD)
  with x have "x \<in> fst ` set env - A" by simp
  then have "card ((fst ` set env - A) - {x}) < card (fst ` set env - A)"
    by (rule card_Diff1_less [OF finite_Diff [OF finite_imageI [OF finite_set]]])
  moreover have "fst ` set env - insert x A = (fst ` set env - A) - {x}" by blast
  ultimately show ?thesis by simp
qed

definition expand_order ::
  "((macro_env \<times> string list \<times> pp_token list) \<times> (macro_env \<times> string list \<times> pp_token list)) set"
where
  "expand_order = inv_image (less_than <*lex*> less_than) expand_measure"

lemma wf_expand_order: "wf expand_order"
  unfolding expand_order_def by (intro wf_inv_image wf_lex_prod wf_less_than)

termination expand
  apply (relation expand_order)
   apply (rule wf_expand_order)
  by (auto simp: expand_order_def expand_measure_def card_active_less macro_args_def
      split: if_splits dest!: call_args_Call)

text \<open>A self-referential macro expands once and then stops.\<close>

lemma expand_self_reference: "expand [(x, Object_like [Ident x])] [] [Ident x] = Some [Ident x]"
  by simp

subsection \<open>Directives\<close>

datatype directive =
    Pragma_once
  | Include_sys string
  | Define string macro_body
  | Undef string
  | Text "pp_token list"

datatype pp_error = Macro_redefined string | Invalid_macro_call

record pp_state =
  pp_env :: macro_env
  pp_once :: "string list"
  pp_includes :: "string list"
  pp_output :: "pp_token list"

definition pp_init :: pp_state where
  "pp_init = \<lparr>pp_env = [], pp_once = [], pp_includes = [], pp_output = []\<rparr>"

fun pp_directive :: "string \<Rightarrow> pp_state \<Rightarrow> directive \<Rightarrow> pp_error + pp_state" where
  "pp_directive f s Pragma_once =
     Inr (if f \<in> set (pp_once s) then s else s\<lparr>pp_once := f # pp_once s\<rparr>)"
| "pp_directive f s (Include_sys h) = Inr (s\<lparr>pp_includes := pp_includes s @ [h]\<rparr>)"
| "pp_directive f s (Define name body) =
     (case map_of (pp_env s) name of
        None \<Rightarrow> Inr (s\<lparr>pp_env := AList.update name body (pp_env s)\<rparr>)
      | Some old \<Rightarrow> if old = body then Inr s else Inl (Macro_redefined name))"
| "pp_directive f s (Undef name) = Inr (s\<lparr>pp_env := AList.delete name (pp_env s)\<rparr>)"
| "pp_directive f s (Text ts) =
     (case expand (pp_env s) [] ts of
        None \<Rightarrow> Inl Invalid_macro_call
      | Some out \<Rightarrow> Inr (s\<lparr>pp_output := pp_output s @ out\<rparr>))"

fun pp_run :: "string \<Rightarrow> pp_state \<Rightarrow> directive list \<Rightarrow> pp_error + pp_state" where
  "pp_run f s [] = Inr s"
| "pp_run f s (d # ds) = (case pp_directive f s d of Inl e \<Rightarrow> Inl e | Inr s' \<Rightarrow> pp_run f s' ds)"

definition pp_include :: "string \<Rightarrow> directive list \<Rightarrow> pp_state \<Rightarrow> pp_error + pp_state" where
  "pp_include f ds s = (if f \<in> set (pp_once s) then Inr s else pp_run f s ds)"

subsection \<open>Running directives\<close>

lemma pp_run_append:
  "pp_run f s (xs @ ys) = (case pp_run f s xs of Inl e \<Rightarrow> Inl e | Inr s' \<Rightarrow> pp_run f s' ys)"
  by (induction xs arbitrary: s) (auto split: sum.splits)

lemma pp_directive_once_mono:
  "pp_directive f s d = Inr s' \<Longrightarrow> set (pp_once s) \<subseteq> set (pp_once s')"
  by (cases d) (auto split: if_splits option.splits)

lemma pp_run_once_mono:
  "pp_run f s ds = Inr s' \<Longrightarrow> set (pp_once s) \<subseteq> set (pp_once s')"
proof (induction ds arbitrary: s)
  case Nil
  then show ?case by simp
next
  case (Cons d ds)
  then obtain s1 where s1: "pp_directive f s d = Inr s1" and r: "pp_run f s1 ds = Inr s'"
    by (auto split: sum.splits)
  from s1 have "set (pp_once s) \<subseteq> set (pp_once s1)" by (rule pp_directive_once_mono)
  also from r have "\<dots> \<subseteq> set (pp_once s')" by (rule Cons.IH)
  finally show ?case .
qed

lemma pp_run_pragma_once:
  "pp_run f s (Pragma_once # ds) = Inr s' \<Longrightarrow> f \<in> set (pp_once s')"
proof -
  assume r: "pp_run f s (Pragma_once # ds) = Inr s'"
  let ?s1 = "if f \<in> set (pp_once s) then s else s\<lparr>pp_once := f # pp_once s\<rparr>"
  have "f \<in> set (pp_once ?s1)" by simp
  moreover from r have "pp_run f ?s1 ds = Inr s'" by simp
  ultimately show ?thesis using pp_run_once_mono by blast
qed

lemma pp_run_undef_last:
  "pp_run f s (ds @ [Undef name]) = Inr s' \<Longrightarrow> map_of (pp_env s') name = None"
  by (auto simp: pp_run_append delete_conv' split: sum.splits)

end
