(* ===== verification/Switch.thy ===== *)
theory Switch
  imports Prelude
begin

text \<open>
  The control structure of \<^verbatim>\<open>bt_transport_text\<close>: a C++ \<^verbatim>\<open>switch\<close> whose
  every \<^verbatim>\<open>case\<close> is generated by the macro \<^verbatim>\<open>CASE_RETURN_TEXT(code)\<close>
  and ends in a \<^verbatim>\<open>return\<close>, followed by a \<^verbatim>\<open>default:\<close> that returns as well.

  \<^item> An object-like \<^verbatim>\<open>#define NAME value\<close> is a record \<open>pp_macro\<close> holding the
    macro's name and the integer constant it expands to.
  \<^item> \<^verbatim>\<open>CASE_RETURN_TEXT(code)\<close> expands to \<^verbatim>\<open>case code: return #code\<close>:
    the label is the value the argument expands to, and the returned text is the
    argument's spelling (the preprocessor's \<^verbatim>\<open>#\<close> stringises the argument as
    written, before expansion). \<open>case_return_text\<close> gives that pair.
  \<^item> A \<^verbatim>\<open>switch\<close> whose cases all return is \<open>switch_return\<close>: the list of
    (label, result) pairs in source order and the default branch as a function of
    the promoted condition. The condition is compared with each label; the first
    equal label's result is returned; with none, the default branch runs.
\<close>

record pp_macro =
  macro_name :: cxx_string
  macro_value :: cxx_int

definition case_return_text :: "pp_macro \<Rightarrow> cxx_int \<times> cxx_string" where
  "case_return_text code = (macro_value code, macro_name code)"

fun switch_return :: "('k \<times> 'v) list \<Rightarrow> ('k \<Rightarrow> 'v) \<Rightarrow> 'k \<Rightarrow> 'v" where
  "switch_return [] dflt k = dflt k"
| "switch_return ((label, result) # cases) dflt k =
     (if k = label then result else switch_return cases dflt k)"

end
