(* ===== verification/Transport.thy ===== *)
theory Transport
  imports Decimal Switch
begin

text \<open>
  The header \<^verbatim>\<open>system/types/bt_transport.h\<close>: the transport codes
  \<^verbatim>\<open>BT_TRANSPORT_AUTO\<close>, \<^verbatim>\<open>BT_TRANSPORT_BR_EDR\<close>, \<^verbatim>\<open>BT_TRANSPORT_LE\<close>
  (object-like macros expanding to 0, 1, 2), the type \<^verbatim>\<open>tBT_TRANSPORT\<close>
  (\<^verbatim>\<open>uint8_t\<close>) and the formatter \<^verbatim>\<open>bt_transport_text\<close>.

  The formatter is a \<^verbatim>\<open>switch\<close> on the promoted value \<^term>\<open>uint transport\<close>
  with one \<^verbatim>\<open>CASE_RETURN_TEXT\<close> case per macro, in source order, and a
  \<^verbatim>\<open>default:\<close> branch that concatenates \<^verbatim>\<open>"UNKNOWN["\<close>,
  \<^verbatim>\<open>std::to_string(transport)\<close> and \<^verbatim>\<open>"]"\<close>. The argument is passed by
  \<^verbatim>\<open>const&\<close> and never written, so the model takes it by value.

  The theory also holds the abstract view of the header (a datatype of the three
  transports with their names, and the label the spec promises for every byte),
  and a parser of labels used to state that the formatter loses no information.
\<close>

type_synonym tBT_TRANSPORT = u8

subsection \<open>The header\<close>

definition BT_TRANSPORT_AUTO :: pp_macro where
  "BT_TRANSPORT_AUTO = \<lparr>macro_name = ''BT_TRANSPORT_AUTO'', macro_value = 0\<rparr>"

definition BT_TRANSPORT_BR_EDR :: pp_macro where
  "BT_TRANSPORT_BR_EDR = \<lparr>macro_name = ''BT_TRANSPORT_BR_EDR'', macro_value = 1\<rparr>"

definition BT_TRANSPORT_LE :: pp_macro where
  "BT_TRANSPORT_LE = \<lparr>macro_name = ''BT_TRANSPORT_LE'', macro_value = 2\<rparr>"

definition bt_transport_cases :: "(cxx_int \<times> cxx_string) list" where
  "bt_transport_cases =
     [case_return_text BT_TRANSPORT_AUTO,
      case_return_text BT_TRANSPORT_BR_EDR,
      case_return_text BT_TRANSPORT_LE]"

definition bt_transport_unknown :: "tBT_TRANSPORT \<Rightarrow> cxx_string" where
  "bt_transport_unknown transport = ''UNKNOWN['' @ to_string (uint transport) @ '']''"

definition bt_transport_text :: "tBT_TRANSPORT \<Rightarrow> cxx_string" where
  "bt_transport_text transport =
     switch_return bt_transport_cases (\<lambda>_. bt_transport_unknown transport) (uint transport)"

subsection \<open>The abstract view\<close>

datatype transport = Transport_Auto | Transport_Br_Edr | Transport_Le

primrec transport_name :: "transport \<Rightarrow> string" where
  "transport_name Transport_Auto = ''BT_TRANSPORT_AUTO''"
| "transport_name Transport_Br_Edr = ''BT_TRANSPORT_BR_EDR''"
| "transport_name Transport_Le = ''BT_TRANSPORT_LE''"

primrec transport_code :: "transport \<Rightarrow> tBT_TRANSPORT" where
  "transport_code Transport_Auto = 0"
| "transport_code Transport_Br_Edr = 1"
| "transport_code Transport_Le = 2"

definition transport_of :: "tBT_TRANSPORT \<Rightarrow> transport option" where
  "transport_of t =
     (if t = 0 then Some Transport_Auto
      else if t = 1 then Some Transport_Br_Edr
      else if t = 2 then Some Transport_Le
      else None)"

text \<open>The label the spec promises: the name of a known transport, else the code in decimal.\<close>

definition transport_label :: "tBT_TRANSPORT \<Rightarrow> string" where
  "transport_label t =
     (case transport_of t of
        Some tr \<Rightarrow> transport_name tr
      | None \<Rightarrow> ''UNKNOWN['' @ decimal_digits (unat t) @ '']'')"

definition parse_transport_text :: "string \<Rightarrow> tBT_TRANSPORT option" where
  "parse_transport_text s =
     (if s = ''BT_TRANSPORT_AUTO'' then Some 0
      else if s = ''BT_TRANSPORT_BR_EDR'' then Some 1
      else if s = ''BT_TRANSPORT_LE'' then Some 2
      else case strip_prefix ''UNKNOWN['' s of
        None \<Rightarrow> None
      | Some r \<Rightarrow>
          (case strip_suffix '']'' r of
             None \<Rightarrow> None
           | Some ds \<Rightarrow>
               (case parse_decimal ds of
                  None \<Rightarrow> None
                | Some n \<Rightarrow> if 2 < n \<and> n < 256 then Some (of_nat n) else None)))"

subsection \<open>Evaluating the formatter\<close>

lemmas bt_transport_macro_defs [label_simps] =
  BT_TRANSPORT_AUTO_def BT_TRANSPORT_BR_EDR_def BT_TRANSPORT_LE_def case_return_text_def

lemma bt_transport_unknown_digits:
  "bt_transport_unknown t = ''UNKNOWN['' @ decimal_digits (unat t) @ '']''"
  by (simp add: bt_transport_unknown_def to_string_nonneg)

lemma uint_u8_small:
  "uint (t :: u8) = 0 \<longleftrightarrow> t = 0" "uint t = 1 \<longleftrightarrow> t = 1" "uint t = 2 \<longleftrightarrow> t = 2"
  by (simp_all add: word_uint_eq_iff)

lemma u8_gt_two: "2 < (t :: u8) \<Longrightarrow> t \<noteq> 0 \<and> t \<noteq> 1 \<and> t \<noteq> 2"
  by unat_arith

lemma bt_transport_text_eq:
  "bt_transport_text t =
     (if t = 0 then ''BT_TRANSPORT_AUTO''
      else if t = 1 then ''BT_TRANSPORT_BR_EDR''
      else if t = 2 then ''BT_TRANSPORT_LE''
      else ''UNKNOWN['' @ decimal_digits (unat t) @ '']'')"
  by (simp add: bt_transport_text_def bt_transport_cases_def label_simps
      uint_u8_small bt_transport_unknown_digits)

subsection \<open>Behaviour of the formatter\<close>

text \<open>
  C3: every other code reaches the \<^verbatim>\<open>default:\<close> branch and prints as
  \<^verbatim>\<open>UNKNOWN[\<close>, its value in decimal, \<^verbatim>\<open>]\<close>.
\<close>

lemma bt_transport_text_unknown:
  "2 < t \<Longrightarrow> bt_transport_text t = ''UNKNOWN['' @ decimal_digits (unat t) @ '']''"
  by (drule u8_gt_two) (simp add: bt_transport_text_eq)

lemma bt_transport_text_unknown_witness:
  "(2 :: tBT_TRANSPORT) < 7 \<and> bt_transport_text 7 = ''UNKNOWN[7]'' \<and>
   (2 :: tBT_TRANSPORT) < 255 \<and> bt_transport_text 255 = ''UNKNOWN[255]''"
  using bt_transport_text_unknown [of 7] bt_transport_text_unknown [of 255]
  by (simp add: decimal_simps)

text \<open>
  C2: the formatter implements the label the spec promises for every byte:
  the name of a known transport, else the code in decimal between
  \<^verbatim>\<open>UNKNOWN[\<close> and \<^verbatim>\<open>]\<close>.
\<close>

lemma bt_transport_text_refines: "bt_transport_text = transport_label"
proof
  fix t
  show "bt_transport_text t = transport_label t"
    by (simp add: bt_transport_text_eq transport_label_def transport_of_def)
qed

text \<open>C4: the printed label determines the code: parsing it gives the code back.\<close>

lemma parse_transport_text_bt_transport_text:
  "parse_transport_text (bt_transport_text t) = Some t"
proof -
  consider "t = 0" | "t = 1" | "t = 2" | "t \<noteq> 0 \<and> t \<noteq> 1 \<and> t \<noteq> 2" by blast
  then show ?thesis
  proof cases
    case 4
    then have gt: "2 < unat t"
      by (simp add: u8_eq_iff_unat)
    with 4 parse_decimal_decimal_digits [of "unat t"] show ?thesis
      by (simp add: bt_transport_text_eq parse_transport_text_def)
  qed (simp_all add: bt_transport_text_eq parse_transport_text_def)
qed

end
