(* ===== verification/Header.thy ===== *)
theory Header
  imports Preproc Transport
begin

text \<open>
  The header \<^verbatim>\<open>system/types/bt_transport.h\<close> as the preprocessor sees it: a
  list of directives and text lines (lines 17 to 40), run by \<open>pp_include\<close> of
  theory \<open>Preproc\<close>. \<open>CASE_RETURN_TEXT_macro\<close> is the function-like macro of
  lines 26 to 28, \<open>bt_transport_text_tokens\<close> the tokens of the function on lines
  30 to 39. \<open>bt_transport_h_file\<close> stands for the header file itself, the
  identity \<^verbatim>\<open>#pragma once\<close> records, whatever path an \<^verbatim>\<open>#include\<close> spells
  to reach it.
\<close>

definition bt_transport_h_file :: string where
  "bt_transport_h_file = ''system/types/bt_transport.h''"

definition CASE_RETURN_TEXT_macro :: macro_body where
  "CASE_RETURN_TEXT_macro =
     Function_like [''code'']
       [Tok (Ident ''case''), Param 0, Tok (Punct '':''), Tok (Ident ''return''), Stringify 0]"

definition bt_transport_text_tokens :: "pp_token list" where
  "bt_transport_text_tokens =
     [Ident ''inline'', Ident ''std'', Punct ''::'', Ident ''string'', Ident ''bt_transport_text'',
      Punct ''('', Ident ''const'', Ident ''tBT_TRANSPORT'', Punct ''&'', Ident ''transport'',
      Punct '')'', Punct ''{'',
      Ident ''switch'', Punct ''('', Ident ''transport'', Punct '')'', Punct ''{'',
      Ident ''CASE_RETURN_TEXT'', Punct ''('', Ident ''BT_TRANSPORT_AUTO'', Punct '')'', Punct '';'',
      Ident ''CASE_RETURN_TEXT'', Punct ''('', Ident ''BT_TRANSPORT_BR_EDR'', Punct '')'', Punct '';'',
      Ident ''CASE_RETURN_TEXT'', Punct ''('', Ident ''BT_TRANSPORT_LE'', Punct '')'', Punct '';'',
      Ident ''default'', Punct '':'',
      Ident ''return'', Ident ''std'', Punct ''::'', Ident ''string'', Punct ''('', Str_lit ''UNKNOWN['',
      Punct '')'', Punct ''+'', Ident ''std'', Punct ''::'', Ident ''to_string'', Punct ''('',
      Ident ''transport'', Punct '')'', Punct ''+'',
      Ident ''std'', Punct ''::'', Ident ''string'', Punct ''('', Str_lit '']'', Punct '')'', Punct '';'',
      Punct ''}'',
      Punct ''}'']"

definition bt_transport_h :: "directive list" where
  "bt_transport_h =
     [Pragma_once,
      Include_sys ''string'',
      Define ''BT_TRANSPORT_AUTO'' (Object_like [Number ''0'']),
      Define ''BT_TRANSPORT_BR_EDR'' (Object_like [Number ''1'']),
      Define ''BT_TRANSPORT_LE'' (Object_like [Number ''2'']),
      Text [Ident ''typedef'', Ident ''uint8_t'', Ident ''tBT_TRANSPORT'', Punct '';''],
      Define ''CASE_RETURN_TEXT'' CASE_RETURN_TEXT_macro,
      Text bt_transport_text_tokens,
      Undef ''CASE_RETURN_TEXT'']"

subsection \<open>Preprocessing the header\<close>

lemmas bt_transport_h_eval =
  pp_include_def pp_init_def bt_transport_h_def bt_transport_text_tokens_def
  CASE_RETURN_TEXT_macro_def call_args_def macro_args_def parse_decimal_def digit_value_def

lemma bt_transport_h_split:
  "bt_transport_h = Pragma_once # butlast (tl bt_transport_h) @ [Undef ''CASE_RETURN_TEXT'']"
  by (simp add: bt_transport_h_def)

lemma bt_transport_h_succeeds: "\<exists>s. pp_include bt_transport_h_file bt_transport_h pp_init = Inr s"
  by (simp add: bt_transport_h_eval)

text \<open>
  C9: whatever the including translation unit defined before, the helper macro
  \<^verbatim>\<open>CASE_RETURN_TEXT\<close> is not defined after the header: the final
  \<^verbatim>\<open>#undef\<close> keeps it from leaking into the includer.
\<close>

theorem bt_transport_h_undef:
  "pp_include f bt_transport_h s0 = Inr s \<Longrightarrow> f \<notin> set (pp_once s0) \<Longrightarrow>
     map_of (pp_env s) ''CASE_RETURN_TEXT'' = None"
  by (subst (asm) bt_transport_h_split) (auto simp: pp_include_def dest: pp_run_undef_last)

text \<open>
  C10: including the header a second time changes nothing (\<^verbatim>\<open>#pragma once\<close>).
\<close>

theorem bt_transport_h_include_twice:
  "pp_include f bt_transport_h s0 = Inr s \<Longrightarrow> pp_include f bt_transport_h s = Inr s"
proof (cases "f \<in> set (pp_once s0)")
  case True
  then show "pp_include f bt_transport_h s0 = Inr s \<Longrightarrow> ?thesis"
    by (simp add: pp_include_def)
next
  case False
  assume "pp_include f bt_transport_h s0 = Inr s"
  with False have "pp_run f s0 (Pragma_once # butlast (tl bt_transport_h) @ [Undef ''CASE_RETURN_TEXT'']) = Inr s"
    by (simp add: pp_include_def flip: bt_transport_h_split)
  then have "f \<in> set (pp_once s)" by (rule pp_run_pragma_once)
  then show ?thesis by (simp add: pp_include_def)
qed

text \<open>
  C11: a translation unit that already defines \<^verbatim>\<open>BT_TRANSPORT_LE\<close> with another
  replacement cannot include the header: preprocessing stops with a macro
  redefinition error.
\<close>

theorem bt_transport_h_redefinition:
  "map_of (pp_env s0) ''BT_TRANSPORT_LE'' = Some b \<Longrightarrow> b \<noteq> Object_like [Number ''2''] \<Longrightarrow>
   f \<notin> set (pp_once s0) \<Longrightarrow>
   \<exists>n. pp_include f bt_transport_h s0 = Inl (Macro_redefined n)"
  by (auto simp: pp_include_def bt_transport_h_def update_conv' split: option.splits)

text \<open>
  C8: \<^verbatim>\<open>CASE_RETURN_TEXT(x)\<close>, for a macro \<open>x\<close> that expands to one number
  \<open>v\<close>, expands to \<^verbatim>\<open>case v : return "x"\<close>: the label is the macro's value and
  the returned text its spelling, which is what \<open>case_return_text\<close> models.
\<close>

theorem case_return_text_expansion:
  "map_of env ''CASE_RETURN_TEXT'' = Some CASE_RETURN_TEXT_macro \<Longrightarrow>
   map_of env x = Some (Object_like [Number v]) \<Longrightarrow>
   map_of env ''case'' = None \<Longrightarrow> map_of env ''return'' = None \<Longrightarrow>
   x \<noteq> ''CASE_RETURN_TEXT'' \<Longrightarrow>
   expand env [] [Ident ''CASE_RETURN_TEXT'', Punct ''('', Ident x, Punct '')''] =
     Some [Ident ''case'', Number v, Punct '':'', Ident ''return'', Str_lit x]"
  by (simp add: CASE_RETURN_TEXT_macro_def call_args_def macro_args_def)

subsection \<open>Witnesses\<close>

definition case_return_text_env :: macro_env where
  "case_return_text_env =
     [(''CASE_RETURN_TEXT'', CASE_RETURN_TEXT_macro), (''BT_TRANSPORT_LE'', Object_like [Number ''2''])]"

theorem case_return_text_expansion_witness:
  "map_of case_return_text_env ''CASE_RETURN_TEXT'' = Some CASE_RETURN_TEXT_macro \<and>
   map_of case_return_text_env ''BT_TRANSPORT_LE'' = Some (Object_like [Number ''2'']) \<and>
   map_of case_return_text_env ''case'' = None \<and> map_of case_return_text_env ''return'' = None \<and>
   ''BT_TRANSPORT_LE'' \<noteq> ''CASE_RETURN_TEXT'' \<and>
   expand case_return_text_env []
     [Ident ''CASE_RETURN_TEXT'', Punct ''('', Ident ''BT_TRANSPORT_LE'', Punct '')''] =
   Some [Ident ''case'', Number ''2'', Punct '':'', Ident ''return'', Str_lit ''BT_TRANSPORT_LE'']"
proof -
  have h: "map_of case_return_text_env ''CASE_RETURN_TEXT'' = Some CASE_RETURN_TEXT_macro"
    "map_of case_return_text_env ''BT_TRANSPORT_LE'' = Some (Object_like [Number ''2''])"
    "map_of case_return_text_env ''case'' = None" "map_of case_return_text_env ''return'' = None"
    "''BT_TRANSPORT_LE'' \<noteq> ''CASE_RETURN_TEXT''"
    by (simp_all add: case_return_text_env_def)
  show ?thesis using h case_return_text_expansion [OF h] by blast
qed

theorem bt_transport_h_undef_witness:
  "\<exists>s. pp_include bt_transport_h_file bt_transport_h pp_init = Inr s \<and>
       bt_transport_h_file \<notin> set (pp_once pp_init) \<and>
       map_of (pp_env s) ''CASE_RETURN_TEXT'' = None"
proof -
  obtain s where s: "pp_include bt_transport_h_file bt_transport_h pp_init = Inr s"
    using bt_transport_h_succeeds by blast
  have n: "bt_transport_h_file \<notin> set (pp_once pp_init)" by (simp add: pp_init_def)
  from s n bt_transport_h_undef [OF s n] show ?thesis by blast
qed

theorem bt_transport_h_include_twice_witness:
  "\<exists>s. pp_include bt_transport_h_file bt_transport_h pp_init = Inr s \<and>
       pp_include bt_transport_h_file bt_transport_h s = Inr s"
proof -
  obtain s where s: "pp_include bt_transport_h_file bt_transport_h pp_init = Inr s"
    using bt_transport_h_succeeds by blast
  from s bt_transport_h_include_twice [OF s] show ?thesis by blast
qed

definition le_redefined_state :: pp_state where
  "le_redefined_state = pp_init\<lparr>pp_env := [(''BT_TRANSPORT_LE'', Object_like [Number ''3''])]\<rparr>"

theorem bt_transport_h_redefinition_witness:
  "map_of (pp_env le_redefined_state) ''BT_TRANSPORT_LE'' = Some (Object_like [Number ''3'']) \<and>
   Object_like [Number ''3''] \<noteq> Object_like [Number ''2''] \<and>
   bt_transport_h_file \<notin> set (pp_once le_redefined_state) \<and>
   (\<exists>n. pp_include bt_transport_h_file bt_transport_h le_redefined_state = Inl (Macro_redefined n))"
proof -
  have h: "map_of (pp_env le_redefined_state) ''BT_TRANSPORT_LE'' = Some (Object_like [Number ''3''])"
    "Object_like [Number ''3''] \<noteq> Object_like [Number ''2'']"
    "bt_transport_h_file \<notin> set (pp_once le_redefined_state)"
    by (simp_all add: le_redefined_state_def pp_init_def)
  show ?thesis using h bt_transport_h_redefinition [OF h] by blast
qed

end
