(* ===== verification/Cxx_String.thy ===== *)
theory Cxx_String
  imports Transport
begin

text \<open>
  The C++ string operations \<^verbatim>\<open>bt_transport_text\<close> performs, as the standard
  specifies them. A computation \<open>'a cxx\<close> is the set of its possible outcomes:
  a value (\<open>Inr\<close>) or the exception \<^verbatim>\<open>std::bad_alloc\<close> (\<open>Inl Bad_alloc\<close>),
  the set monad for non-determinism with an exception sum inside it.

  The standard lets every operation that builds or enlarges a
  \<^verbatim>\<open>std::string\<close> obtain storage from the allocator and throw
  \<^verbatim>\<open>std::bad_alloc\<close> when it cannot ([string.require], [res.on.exception.handling]).
  Whether a given call allocates depends on the library: a string that fits the
  small-string buffer of libc++ or libstdc++ needs no allocation, a longer one
  does, and the sizes requested follow each library's growth policy. The model
  therefore fixes no storage amounts: each such operation (\<open>make_string\<close>)
  either yields its string or throws, and the claims hold for every library.

  \<^item> A string literal is its characters followed by a null character
    (\<open>c_literal\<close>, [lex.string]); \<^verbatim>\<open>std::string(const char* s)\<close> holds the
    characters before the first null (\<open>c_str_chars\<close>, \<open>string_of_c_str\<close>,
    [string.cons]).
  \<^item> \<^verbatim>\<open>std::to_string\<close> builds a string (\<open>cxx_to_string\<close>).
  \<^item> \<^verbatim>\<open>a + b\<close> on two temporaries is \<^verbatim>\<open>std::move(a.append(b))\<close>
    ([string.op.plus]): the characters of \<open>b\<close> are appended to \<open>a\<close>, which may
    need a larger buffer (\<open>string_plus\<close>).
  \<^item> The operands of \<^verbatim>\<open>+\<close> are unsequenced ([intro.execution]);
    \<open>plus_expr\<close> evaluates the left one first, and \<open>plus_expr_swap\<close> shows that
    the other order has the same outcomes.
  \<^item> \<open>bt_transport_default\<close> is the \<^verbatim>\<open>default:\<close> branch,
    \<open>bt_transport_case_returns\<close> the \<^verbatim>\<open>return #code\<close> of each case (the
    literal converted to the returned \<^verbatim>\<open>std::string\<close>), and
    \<open>bt_transport_text_cxx\<close> the function with these operations.
\<close>

datatype cxx_error = Bad_alloc

type_synonym 'a cxx = "(cxx_error + 'a) set"

definition cxx_return :: "'a \<Rightarrow> 'a cxx" where
  "cxx_return x = {Inr x}"

definition cxx_bind :: "'a cxx \<Rightarrow> ('a \<Rightarrow> 'b cxx) \<Rightarrow> 'b cxx" where
  "cxx_bind m k = \<Union> ((\<lambda>r. case r of Inl e \<Rightarrow> {Inl e} | Inr x \<Rightarrow> k x) ` m)"

definition make_string :: "cxx_string \<Rightarrow> cxx_string cxx" where
  "make_string s = cxx_return s \<union> {Inl Bad_alloc}"

definition c_literal :: "string \<Rightarrow> char list" where
  "c_literal s = s @ [CHR 0x00]"

definition c_str_chars :: "char list \<Rightarrow> string" where
  "c_str_chars p = takeWhile (\<lambda>c. c \<noteq> CHR 0x00) p"

definition string_of_c_str :: "char list \<Rightarrow> cxx_string cxx" where
  "string_of_c_str p = make_string (c_str_chars p)"

definition cxx_to_string :: "cxx_int \<Rightarrow> cxx_string cxx" where
  "cxx_to_string v = make_string (to_string v)"

definition string_plus :: "cxx_string \<Rightarrow> cxx_string \<Rightarrow> cxx_string cxx" where
  "string_plus lhs rhs = make_string (lhs @ rhs)"

definition plus_expr :: "cxx_string cxx \<Rightarrow> cxx_string cxx \<Rightarrow> cxx_string cxx" where
  "plus_expr lhs rhs = cxx_bind lhs (\<lambda>a. cxx_bind rhs (\<lambda>b. string_plus a b))"

definition bt_transport_default :: "tBT_TRANSPORT \<Rightarrow> cxx_string cxx" where
  "bt_transport_default transport =
     plus_expr
       (plus_expr (string_of_c_str (c_literal ''UNKNOWN['')) (cxx_to_string (uint transport)))
       (string_of_c_str (c_literal '']''))"

definition bt_transport_case_returns :: "(cxx_int \<times> cxx_string cxx) list" where
  "bt_transport_case_returns =
     map (\<lambda>(label, text). (label, string_of_c_str (c_literal text))) bt_transport_cases"

definition bt_transport_text_cxx :: "tBT_TRANSPORT \<Rightarrow> cxx_string cxx" where
  "bt_transport_text_cxx transport =
     switch_return bt_transport_case_returns (\<lambda>_. bt_transport_default transport) (uint transport)"

subsection \<open>Outcomes\<close>

lemma cxx_bind_make_string:
  "cxx_bind (make_string s) k = insert (Inl Bad_alloc) (k s)"
  by (auto simp: cxx_bind_def make_string_def cxx_return_def)

lemma insert_bad_alloc_make_string [simp]: "insert (Inl Bad_alloc) (make_string s) = make_string s"
  by (auto simp: make_string_def)

lemma plus_expr_make_string:
  "plus_expr (make_string a) (make_string b) = make_string (a @ b)"
  by (simp add: plus_expr_def cxx_bind_make_string string_plus_def)

text \<open>Evaluating the right operand of \<^verbatim>\<open>+\<close> first has the same outcomes.\<close>

lemma plus_expr_swap:
  "cxx_bind (make_string b) (\<lambda>y. cxx_bind (make_string a) (\<lambda>x. string_plus x y)) =
     plus_expr (make_string a) (make_string b)"
  by (simp add: plus_expr_def cxx_bind_make_string string_plus_def)

lemma c_str_chars_literal: "CHR 0x00 \<notin> set s \<Longrightarrow> c_str_chars (c_literal s) = s"
  by (induction s) (auto simp: c_str_chars_def c_literal_def)

lemma string_of_literal: "CHR 0x00 \<notin> set s \<Longrightarrow> string_of_c_str (c_literal s) = make_string s"
  by (simp add: string_of_c_str_def c_str_chars_literal)

lemma bt_transport_default_outcomes:
  "bt_transport_default t = make_string (''UNKNOWN['' @ decimal_digits (unat t) @ '']'')"
  by (simp add: bt_transport_default_def string_of_literal cxx_to_string_def plus_expr_make_string
      to_string_uint)

lemma bt_transport_text_cxx_outcomes:
  "bt_transport_text_cxx t = make_string (bt_transport_text t)"
proof -
  consider "t = 0" | "t = 1" | "t = 2" | "2 < t" by unat_arith
  then show ?thesis
  proof cases
    case 4
    then show ?thesis
      by (simp add: bt_transport_text_cxx_def bt_transport_case_returns_def bt_transport_cases_def
          label_simps uint_u8_small u8_gt_two bt_transport_default_outcomes bt_transport_text_eq)
  qed (simp_all add: bt_transport_text_cxx_def bt_transport_case_returns_def bt_transport_cases_def
      label_simps string_of_literal bt_transport_text_eq)
qed

end
