(* ===== verification/Transport_Enum.thy ===== *)
theory Transport_Enum
  imports Transport
begin

text \<open>
  The three transports of the header as a finite type: an instance of the class
  \<open>enum\<close>, listing them in the order of their \<^verbatim>\<open>#define\<close> lines, so that
  statements over every transport unfold to the three cases and evaluate. With it,
  the set of labels \<^verbatim>\<open>bt_transport_text\<close> can return is characterised
  exactly.
\<close>

instantiation transport :: enum
begin

definition enum_transport :: "transport list" where
  "enum_transport = [Transport_Auto, Transport_Br_Edr, Transport_Le]"

definition enum_all_transport :: "(transport \<Rightarrow> bool) \<Rightarrow> bool" where
  "enum_all_transport P \<longleftrightarrow> P Transport_Auto \<and> P Transport_Br_Edr \<and> P Transport_Le"

definition enum_ex_transport :: "(transport \<Rightarrow> bool) \<Rightarrow> bool" where
  "enum_ex_transport P \<longleftrightarrow> P Transport_Auto \<or> P Transport_Br_Edr \<or> P Transport_Le"

lemma UNIV_transport: "UNIV = {Transport_Auto, Transport_Br_Edr, Transport_Le}"
  using transport.exhaust by auto

instance proof
  show "UNIV = set (enum_class.enum :: transport list)"
    by (simp add: UNIV_transport enum_transport_def)
  show "distinct (enum_class.enum :: transport list)"
    by (simp add: enum_transport_def)
  show "\<And>P. enum_class.enum_all P = Ball (UNIV :: transport set) P"
    by (simp add: UNIV_transport enum_all_transport_def)
  show "\<And>P. enum_class.enum_ex P = Bex (UNIV :: transport set) P"
    by (simp add: UNIV_transport enum_ex_transport_def)
qed

end

lemma bt_transport_text_code: "bt_transport_text (transport_code tr) = transport_name tr"
  by (cases tr) (simp_all add: bt_transport_text_eq)

lemma u8_of_nat_small: "n < 256 \<Longrightarrow> unat (of_nat n :: u8) = n"
  by (simp add: unat_of_nat)

subsection \<open>The labels of the formatter\<close>

text \<open>
  C5: the labels \<^verbatim>\<open>bt_transport_text\<close> returns are exactly the names of
  the three transports and \<^verbatim>\<open>UNKNOWN[n]\<close> for the decimal numerals
  \<open>n\<close> from 3 to 255; each of them is returned for some byte.
\<close>

theorem bt_transport_text_range:
  "range bt_transport_text =
     set (map transport_name enum_class.enum) \<union>
     (\<lambda>n. ''UNKNOWN['' @ decimal_digits n @ '']'') ` {3..<256}"
proof (intro equalityI subsetI)
  fix l assume "l \<in> range bt_transport_text"
  then obtain t where l: "l = bt_transport_text t" by blast
  show "l \<in> set (map transport_name enum_class.enum) \<union>
     (\<lambda>n. ''UNKNOWN['' @ decimal_digits n @ '']'') ` {3..<256}"
  proof (cases "t \<le> 2")
    case True
    then have "t = 0 \<or> t = 1 \<or> t = 2" by unat_arith
    with l show ?thesis by (auto simp: bt_transport_text_eq enum_transport_def)
  next
    case False
    then have "3 \<le> unat t" by unat_arith
    moreover have "unat t < 256" by (rule unat_u8_less)
    ultimately show ?thesis using False l by (auto simp: bt_transport_text_eq)
  qed
next
  fix l assume l: "l \<in> set (map transport_name enum_class.enum) \<union>
     (\<lambda>n. ''UNKNOWN['' @ decimal_digits n @ '']'') ` {3..<256}"
  show "l \<in> range bt_transport_text"
  proof (cases "l \<in> set (map transport_name enum_class.enum)")
    case True
    then obtain tr where "l = transport_name tr" by auto
    then show ?thesis by (metis bt_transport_text_code rangeI)
  next
    case False
    with l obtain n where n: "3 \<le> n" "n < 256" and ln: "l = ''UNKNOWN['' @ decimal_digits n @ '']''"
      by auto
    let ?t = "of_nat n :: tBT_TRANSPORT"
    from n have u: "unat ?t = n" by (simp add: u8_of_nat_small)
    with n have "?t \<noteq> 0" "?t \<noteq> 1" "?t \<noteq> 2" by (auto simp: u8_eq_iff_unat)
    with u ln have "bt_transport_text ?t = l" by (simp add: bt_transport_text_eq)
    then show ?thesis by (metis rangeI)
  qed
qed

end
