(* ===== verification/Cxx_Ast.thy ===== *)
theory Cxx_Ast
  imports Cxx_String Header "HOL-Library.Monad_Syntax"
begin

text \<open>
  The function \<^verbatim>\<open>bt_transport_text\<close> as the C++ compiler reads it. The
  syntax is the fragment the header uses: expressions built from
  \<^verbatim>\<open>std::string("...")\<close>, \<^verbatim>\<open>std::to_string(p)\<close> of the parameter and
  \<^verbatim>\<open>+\<close> (\<open>cxx_expr\<close>), \<^verbatim>\<open>return\<close> statements (\<open>cxx_stmt\<close>), an inline
  function of one \<^verbatim>\<open>const&\<close> parameter whose body is a \<^verbatim>\<open>switch\<close> on
  that parameter (\<open>cxx_function\<close>), and declarations (\<open>cxx_decl\<close>).

  \<open>bt_transport_text_ast\<close> is lines 30 to 39 written as that syntax, one case
  per \<^verbatim>\<open>CASE_RETURN_TEXT\<close> line and the \<^verbatim>\<open>default:\<close> expression of lines
  36 and 37 with \<^verbatim>\<open>+\<close> grouping to the left ([expr.add]).
  \<open>exec_function\<close> runs a function of this syntax with the string operations of
  theory \<open>Cxx_String\<close>: the parameter is the only name in scope and is read as
  \<open>uint\<close>, the promotion of \<^verbatim>\<open>uint8_t\<close> to \<^verbatim>\<open>int\<close> for the
  \<^verbatim>\<open>switch\<close> condition and for \<^verbatim>\<open>std::to_string\<close>. The parser
  (\<open>parse_decls\<close>, option-valued parsers returning the tokens left) reads the
  preprocessed tokens of theory \<open>Header\<close>; it reads exactly this fragment and
  connects the preprocessor model with the execution.
\<close>

datatype cxx_expr =
    String_ctor string
  | To_string_param
  | Plus cxx_expr cxx_expr

datatype cxx_stmt =
    Return_lit string
  | Return_expr cxx_expr

record cxx_function =
  fn_name :: string
  fn_param_type :: string
  fn_param :: string
  fn_cases :: "(cxx_int \<times> cxx_stmt) list"
  fn_default :: cxx_stmt

datatype cxx_decl =
    Typedef string string
  | Inline_function cxx_function

subsection \<open>The function as written\<close>

definition bt_transport_case_stmts :: "(cxx_int \<times> cxx_stmt) list" where
  "bt_transport_case_stmts =
     map (\<lambda>code. (macro_value code, Return_lit (macro_name code)))
       [BT_TRANSPORT_AUTO, BT_TRANSPORT_BR_EDR, BT_TRANSPORT_LE]"

definition bt_transport_default_expr :: cxx_expr where
  "bt_transport_default_expr =
     Plus (Plus (String_ctor ''UNKNOWN['') To_string_param) (String_ctor '']'')"

definition bt_transport_text_ast :: cxx_function where
  "bt_transport_text_ast =
     \<lparr>fn_name = ''bt_transport_text'', fn_param_type = ''tBT_TRANSPORT'', fn_param = ''transport'',
      fn_cases = bt_transport_case_stmts, fn_default = Return_expr bt_transport_default_expr\<rparr>"

subsection \<open>Execution\<close>

fun eval_expr :: "tBT_TRANSPORT \<Rightarrow> cxx_expr \<Rightarrow> cxx_string cxx" where
  "eval_expr t (String_ctor lit) = string_of_c_str (c_literal lit)"
| "eval_expr t To_string_param = cxx_to_string (uint t)"
| "eval_expr t (Plus a b) = plus_expr (eval_expr t a) (eval_expr t b)"

fun exec_stmt :: "tBT_TRANSPORT \<Rightarrow> cxx_stmt \<Rightarrow> cxx_string cxx" where
  "exec_stmt t (Return_lit lit) = string_of_c_str (c_literal lit)"
| "exec_stmt t (Return_expr e) = eval_expr t e"

definition exec_function :: "cxx_function \<Rightarrow> tBT_TRANSPORT \<Rightarrow> cxx_string cxx" where
  "exec_function fn t =
     switch_return (map (\<lambda>(label, st). (label, exec_stmt t st)) (fn_cases fn))
       (\<lambda>_. exec_stmt t (fn_default fn)) (uint t)"

subsection \<open>Reading the preprocessed tokens\<close>

type_synonym 'a tparser = "pp_token list \<Rightarrow> ('a \<times> pp_token list) option"

fun parse_ident :: "string tparser" where
  "parse_ident (Ident s # ts) = Some (s, ts)"
| "parse_ident ts = None"

fun parse_primary :: "string \<Rightarrow> cxx_expr tparser" where
  "parse_primary p (Ident s # Punct c # Ident f # Punct l # Str_lit lit # Punct r # ts) =
     (if s = ''std'' \<and> c = ''::'' \<and> f = ''string'' \<and> l = ''('' \<and> r = '')''
      then Some (String_ctor lit, ts) else None)"
| "parse_primary p (Ident s # Punct c # Ident f # Punct l # Ident v # Punct r # ts) =
     (if s = ''std'' \<and> c = ''::'' \<and> f = ''to_string'' \<and> l = ''('' \<and> v = p \<and> r = '')''
      then Some (To_string_param, ts) else None)"
| "parse_primary p ts = None"

lemma parse_primary_shorter [simp]:
  "parse_primary p ts = Some (e, ts') \<Longrightarrow> length ts' < length ts"
  by (induction p ts rule: parse_primary.induct) (auto split: if_splits)

fun parse_sum_tail :: "string \<Rightarrow> cxx_expr \<Rightarrow> cxx_expr tparser" where
  "parse_sum_tail p acc (Punct pl # ts) =
     (if pl = ''+'' then
        (case parse_primary p ts of
           None \<Rightarrow> None
         | Some (e, ts') \<Rightarrow> parse_sum_tail p (Plus acc e) ts')
      else Some (acc, Punct pl # ts))"
| "parse_sum_tail p acc ts = Some (acc, ts)"

definition parse_expr :: "string \<Rightarrow> cxx_expr tparser" where
  "parse_expr p ts = do { (e, ts') \<leftarrow> parse_primary p ts; parse_sum_tail p e ts' }"

fun parse_cases :: "string \<Rightarrow> (cxx_int \<times> cxx_stmt) list tparser" where
  "parse_cases p (Ident c # Number n # Punct col # Ident r # Str_lit lit # Punct semi # ts) =
     (if c = ''case'' \<and> col = '':'' \<and> r = ''return'' \<and> semi = '';'' then do {
        v \<leftarrow> parse_decimal n;
        (cs, ts') \<leftarrow> parse_cases p ts;
        Some ((int v, Return_lit lit) # cs, ts')
      }
      else Some ([], Ident c # Number n # Punct col # Ident r # Str_lit lit # Punct semi # ts))"
| "parse_cases p ts = Some ([], ts)"

definition parse_function :: "cxx_function tparser" where
  "parse_function ts0 = do {
     ts1 \<leftarrow> strip_prefix [Ident ''inline'', Ident ''std'', Punct ''::'', Ident ''string''] ts0;
     (name, ts2) \<leftarrow> parse_ident ts1;
     ts3 \<leftarrow> strip_prefix [Punct ''('', Ident ''const''] ts2;
     (ty, ts4) \<leftarrow> parse_ident ts3;
     ts5 \<leftarrow> strip_prefix [Punct ''&''] ts4;
     (param, ts6) \<leftarrow> parse_ident ts5;
     ts7 \<leftarrow> strip_prefix
       [Punct '')'', Punct ''{'', Ident ''switch'', Punct ''('', Ident param, Punct '')'', Punct ''{''] ts6;
     (cases, ts8) \<leftarrow> parse_cases param ts7;
     ts9 \<leftarrow> strip_prefix [Ident ''default'', Punct '':'', Ident ''return''] ts8;
     (dflt, ts10) \<leftarrow> parse_expr param ts9;
     ts11 \<leftarrow> strip_prefix [Punct '';'', Punct ''}'', Punct ''}''] ts10;
     Some (\<lparr>fn_name = name, fn_param_type = ty, fn_param = param, fn_cases = cases,
            fn_default = Return_expr dflt\<rparr>, ts11)
   }"

definition parse_typedef :: "(string \<times> string) tparser" where
  "parse_typedef ts0 = do {
     ts1 \<leftarrow> strip_prefix [Ident ''typedef''] ts0;
     (base, ts2) \<leftarrow> parse_ident ts1;
     (name, ts3) \<leftarrow> parse_ident ts2;
     ts4 \<leftarrow> strip_prefix [Punct '';''] ts3;
     Some ((base, name), ts4)
   }"

definition parse_decl :: "cxx_decl tparser" where
  "parse_decl ts =
     (case parse_typedef ts of
        Some ((base, name), ts') \<Rightarrow> Some (Typedef base name, ts')
      | None \<Rightarrow> map_option (\<lambda>(fn, ts'). (Inline_function fn, ts')) (parse_function ts))"

lemma strip_prefix_shorter: "strip_prefix xs ys = Some zs \<Longrightarrow> length zs + length xs = length ys"
  by (drule strip_prefix_Some) simp

lemma parse_ident_shorter: "parse_ident ts = Some (s, ts') \<Longrightarrow> length ts' < length ts"
  by (cases ts rule: parse_ident.cases) auto

lemma parse_sum_tail_shorter: "parse_sum_tail p acc ts = Some (e, ts') \<Longrightarrow> length ts' \<le> length ts"
proof (induction p acc ts rule: parse_sum_tail.induct)
  case (1 p acc pl ts)
  then show ?case by (fastforce split: if_splits option.splits dest: parse_primary_shorter)
qed auto

lemma parse_cases_shorter: "parse_cases p ts = Some (cs, ts') \<Longrightarrow> length ts' \<le> length ts"
proof (induction p ts arbitrary: cs rule: parse_cases.induct)
  case (1 p c n col r lit semi ts)
  then show ?case by (fastforce simp: bind_eq_Some_conv split: if_splits prod.splits)
qed auto

lemma parse_typedef_shorter: "parse_typedef ts = Some (x, ts') \<Longrightarrow> length ts' < length ts"
  by (auto simp: parse_typedef_def bind_eq_Some_conv split: prod.splits
      dest!: strip_prefix_shorter parse_ident_shorter)

lemma parse_expr_shorter: "parse_expr p ts = Some (e, ts') \<Longrightarrow> length ts' < length ts"
  by (auto simp: parse_expr_def bind_eq_Some_conv split: prod.splits
      dest!: parse_primary_shorter parse_sum_tail_shorter)

lemma parse_function_shorter: "parse_function ts = Some (fn, ts') \<Longrightarrow> length ts' < length ts"
  by (auto simp: parse_function_def bind_eq_Some_conv split: prod.splits
      dest!: strip_prefix_shorter parse_ident_shorter parse_cases_shorter parse_expr_shorter)

lemma parse_decl_shorter [simp]: "parse_decl ts = Some (d, ts') \<Longrightarrow> length ts' < length ts"
  by (auto simp: parse_decl_def split: option.splits prod.splits
      dest: parse_typedef_shorter parse_function_shorter)

function parse_decls :: "pp_token list \<Rightarrow> cxx_decl list option" where
  "parse_decls [] = Some []"
| "parse_decls (t # ts) =
     (case parse_decl (t # ts) of
        None \<Rightarrow> None
      | Some (d, ts') \<Rightarrow> map_option (Cons d) (parse_decls ts'))"
  by pat_completeness auto

termination parse_decls
  by (relation "measure length") (auto dest: parse_decl_shorter)

subsection \<open>Executing the function as written\<close>

fun expr_value :: "tBT_TRANSPORT \<Rightarrow> cxx_expr \<Rightarrow> cxx_string" where
  "expr_value t (String_ctor lit) = c_str_chars (c_literal lit)"
| "expr_value t To_string_param = to_string (uint t)"
| "expr_value t (Plus a b) = expr_value t a @ expr_value t b"

lemma eval_expr_outcomes: "eval_expr t e = make_string (expr_value t e)"
  by (induction e) (simp_all add: string_of_c_str_def cxx_to_string_def plus_expr_make_string)

lemma exec_case_stmts:
  "map (\<lambda>(label, st). (label, exec_stmt t st)) bt_transport_case_stmts = bt_transport_case_returns"
  by (simp add: bt_transport_case_stmts_def bt_transport_case_returns_def bt_transport_cases_def
      label_simps)

lemma eval_default_expr: "eval_expr t bt_transport_default_expr = bt_transport_default t"
  by (simp add: eval_expr_outcomes bt_transport_default_outcomes bt_transport_default_expr_def
      c_str_chars_literal to_string_uint)

lemma exec_bt_transport_text_ast:
  "exec_function bt_transport_text_ast t = make_string (bt_transport_text t)"
  by (simp add: exec_function_def bt_transport_text_ast_def exec_case_stmts eval_default_expr
      flip: bt_transport_text_cxx_def bt_transport_text_cxx_outcomes)

lemmas bt_transport_h_parse_eval =
  bt_transport_h_eval parse_decl_def parse_typedef_def parse_function_def parse_expr_def

end
