(* ===== verification/Spec2Isabelle.thy ===== *)
theory Spec2Isabelle
  imports Header Cxx_String Transport_Enum Cxx_Ast
begin

text \<open>
  \<^bold>\<open>A verification library for \<^verbatim>\<open>system/types/bt_transport.h\<close>.\<close>

  \<^bold>\<open>The program.\<close> The header (src/system/types/bt_transport.h) is a leaf
  utility of the Android Bluetooth stack. It defines three object-like macros
  for the transport codes, \<^verbatim>\<open>BT_TRANSPORT_AUTO\<close> (0),
  \<^verbatim>\<open>BT_TRANSPORT_BR_EDR\<close> (1) and \<^verbatim>\<open>BT_TRANSPORT_LE\<close> (2), the type
  \<^verbatim>\<open>tBT_TRANSPORT\<close> (\<^verbatim>\<open>uint8_t\<close>), a helper macro
  \<^verbatim>\<open>CASE_RETURN_TEXT(code)\<close> that expands to \<^verbatim>\<open>case code: return #code\<close>,
  and the inline function \<^verbatim>\<open>bt_transport_text\<close>, which maps a code to a
  label for logging: a \<^verbatim>\<open>switch\<close> with one \<^verbatim>\<open>CASE_RETURN_TEXT\<close> per
  macro and a \<^verbatim>\<open>default:\<close> that returns
  \<^verbatim>\<open>"UNKNOWN[" + std::to_string(transport) + "]"\<close>. The header is guarded by
  \<^verbatim>\<open>#pragma once\<close> and undefines its helper macro at the end. Its parts
  interact through the preprocessor (the macros build the cases of the
  \<^verbatim>\<open>switch\<close>) and through calls (the default branch calls the C++ library).

  \<^bold>\<open>The theories.\<close>
  \<^item> \<open>Prelude\<close>: the machine types (\<open>u8\<close> = \<open>8 word\<close> for
    \<^verbatim>\<open>uint8_t\<close>, \<open>cxx_int\<close> = \<open>int\<close> for the promoted value,
    \<open>cxx_string\<close> = \<open>string\<close>), the lemma collections \<open>decimal_simps\<close> and
    \<open>label_simps\<close>, facts on 8-bit words, and prefix/suffix stripping.
  \<^item> \<open>Decimal\<close>: \<^verbatim>\<open>std::to_string(int)\<close>, modelled from the C++ standard
    (library code, not in the repository): \<open>digit_char\<close>,
    \<open>decimal_digits\<close> (recursion on \<open>n div 10\<close>) and \<open>to_string\<close>; a parser
    of decimal numerals, \<open>parse_decimal\<close>, for the specification side.
  \<^item> \<open>Switch\<close>: \<^verbatim>\<open>#define\<close> constants as the record \<open>pp_macro\<close>,
    \<^verbatim>\<open>CASE_RETURN_TEXT\<close> as \<open>case_return_text\<close> (label = the macro's
    value, result = its spelling, as \<^verbatim>\<open>#code\<close> stringises the argument
    unexpanded), and a \<^verbatim>\<open>switch\<close> whose cases all return as
    \<open>switch_return\<close> (first equal label, else the default).
  \<^item> \<open>Transport\<close>: the macros \<open>BT_TRANSPORT_AUTO\<close>, \<open>BT_TRANSPORT_BR_EDR\<close>,
    \<open>BT_TRANSPORT_LE\<close>, the case table \<open>bt_transport_cases\<close> in source
    order, the default branch \<open>bt_transport_unknown\<close> and
    \<open>bt_transport_text\<close>, which switches on \<^term>\<open>uint transport\<close> (integral
    promotion to \<^verbatim>\<open>int\<close>, also the overload of \<^verbatim>\<open>std::to_string\<close> the
    default branch calls). Beside them the specification side: the datatype
    \<open>transport\<close>, the label \<open>transport_label\<close> the spec promises for every
    byte, and a parser of labels \<open>parse_transport_text\<close>.
  \<^item> \<open>Transport_Enum\<close>: the \<open>enum\<close> instance of \<open>transport\<close>.
  \<^item> \<open>Preproc\<close>: the C preprocessor as the header uses it, modelled from the
    standard: tokens, the macro table as an association list, argument
    collection, \<^verbatim>\<open>#\<close> stringification, rescanning with active names
    (\<open>expand\<close>, a \<^theory_text>\<open>function\<close> with a termination proof), and the
    directives as a step \<open>pp_directive\<close> on the record \<open>pp_state\<close>, errors
    as values of \<open>pp_error\<close>; \<open>pp_include\<close> runs a file, skipped when
    \<^verbatim>\<open>#pragma once\<close> has recorded the same file before.
  \<^item> \<open>Header\<close>: the header's lines 17 to 40 as the directive list
    \<open>bt_transport_h\<close>, with \<open>CASE_RETURN_TEXT_macro\<close> (lines 26 to 28) and
    the tokens \<open>bt_transport_text_tokens\<close> of the function (lines 30 to 39).
  \<^item> \<open>Cxx_String\<close>: the string operations of the function as the C++
    standard specifies them: a computation is the set of its possible outcomes,
    a string or \<^verbatim>\<open>std::bad_alloc\<close>, since every construction or
    \<^verbatim>\<open>append\<close> may need the allocator; \<^verbatim>\<open>a + b\<close> on temporaries is
    \<^verbatim>\<open>a.append(b)\<close>.
  \<^item> \<open>Cxx_Ast\<close>: the function as the compiler reads it: a syntax of the
    fragment the header uses, lines 30 to 39 written in it
    (\<open>bt_transport_text_ast\<close>), its execution \<open>exec_function\<close> on the string
    operations, and a parser \<open>parse_decls\<close> of the preprocessed tokens.
  \<^item> this theory: the properties that span the components.

  \<^bold>\<open>What is proved.\<close>
  \<^item> End to end (C1): preprocessing the header's text, reading the result as C++
    and executing the function it defines gives, for every byte, the label the
    spec promises or \<^verbatim>\<open>std::bad_alloc\<close>, and never anything else.
  \<^item> The formatter: it equals the spec's label on every byte (C2, refinement);
    every code above 2 prints \<^verbatim>\<open>UNKNOWN[\<close>, its decimal value, \<^verbatim>\<open>]\<close>
    (C3); labels parse back to their code (C4); the set of labels is exactly the
    three names and \<^verbatim>\<open>UNKNOWN[n]\<close> for \<open>3 \<le> n \<le> 255\<close> (C5); distinct
    codes give distinct labels (C6); every label has 10 to 19 characters (C7).
  \<^item> The preprocessor view: \<^verbatim>\<open>CASE_RETURN_TEXT(x)\<close> expands to
    \<^verbatim>\<open>case v : return "x"\<close> (C8); the helper macro does not leak into the
    includer (C9); a second inclusion of the same file is a no-op (C10); an
    earlier conflicting definition of \<^verbatim>\<open>BT_TRANSPORT_LE\<close> makes the inclusion
    ill-formed (C11).

  \<^bold>\<open>Bounds and fuel.\<close> No loop needs fuel. \<open>decimal_digits\<close> terminates
  by \<open>n div 10 < n\<close> for \<open>n \<ge> 10\<close>; \<open>expand\<close> by the lexicographic measure
  (inactive macro names, tokens left); \<open>parse_decls\<close> because every
  declaration consumes tokens. Every model function is total and executable, and
  the witnesses, including the preprocessing and parsing of the whole header,
  evaluate by \<open>simp\<close>.

  \<^bold>\<open>Findings.\<close> The spec says the function has no failure modes and never
  raises. At the level of C++ every branch builds a \<^verbatim>\<open>std::string\<close>, and the
  standard lets each construction or append throw \<^verbatim>\<open>std::bad_alloc\<close>
  (\<open>bt_transport_text_cxx_outcomes\<close>); whether it can happen depends on the
  library's small-string buffer. Only the label computation itself is total.

  \<^bold>\<open>Not modelled.\<close> The rest of the Bluetooth stack that includes this header
  is not part of the repository. Storage amounts of \<^verbatim>\<open>std::string\<close> (the
  small-string buffer, the growth policy) are implementation-defined and not
  modelled: every operation that may allocate may throw. The contents of the
  system header \<^verbatim>\<open><string>\<close> are not modelled: the include is recorded, and
  the header relies on no macro of it. The C++ front end is modelled only for
  the fragment the header uses; name lookup, overload resolution and the integral
  promotions are fixed in the execution (the parameter is the only name in scope,
  read as \<open>uint\<close>) rather than derived from \<^verbatim>\<open><string>\<close>. The licence
  comment (lines 1 to 15) has no behaviour.
\<close>

subsection \<open>Properties across the components\<close>

text \<open>
  C1: the whole chain from the header's text to the spec's label. Preprocessing
  the header from an empty translation unit gives tokens that read as the typedef
  and one inline function; executing that function on any byte either returns the
  label the spec promises or throws \<^verbatim>\<open>std::bad_alloc\<close>, and returning the
  label is a possible outcome.
\<close>

theorem bt_transport_h_compiled_label:
  "\<exists>s fn. pp_include bt_transport_h_file bt_transport_h pp_init = Inr s \<and>
     parse_decls (pp_output s) = Some [Typedef ''uint8_t'' ''tBT_TRANSPORT'', Inline_function fn] \<and>
     (\<forall>t. Inr (transport_label t) \<in> exec_function fn t \<and>
          exec_function fn t \<subseteq> {Inr (transport_label t), Inl Bad_alloc})"
proof -
  have "\<exists>s. pp_include bt_transport_h_file bt_transport_h pp_init = Inr s \<and>
      parse_decls (pp_output s) =
        Some [Typedef ''uint8_t'' ''tBT_TRANSPORT'', Inline_function bt_transport_text_ast]"
    by (simp add: bt_transport_h_parse_eval bt_transport_text_ast_def bt_transport_case_stmts_def
        bt_transport_default_expr_def label_simps)
  then obtain s where s: "pp_include bt_transport_h_file bt_transport_h pp_init = Inr s"
    and p: "parse_decls (pp_output s) =
      Some [Typedef ''uint8_t'' ''tBT_TRANSPORT'', Inline_function bt_transport_text_ast]" by blast
  have "exec_function bt_transport_text_ast t = {Inr (transport_label t), Inl Bad_alloc}" for t
  proof -
    have "transport_label t = bt_transport_text t"
      by (simp add: bt_transport_text_eq transport_label_def transport_of_def)
    then show ?thesis
      by (simp add: exec_bt_transport_text_ast make_string_def cxx_return_def insert_commute)
  qed
  with s p show ?thesis by blast
qed

text \<open>C6: two different transport codes never print the same label.\<close>

theorem bt_transport_text_inj: "inj bt_transport_text"
proof (rule injI)
  fix s t :: tBT_TRANSPORT
  assume eq: "bt_transport_text s = bt_transport_text t"
  show "s = t"
  proof (cases "s = 0 \<or> s = 1 \<or> s = 2 \<or> t = 0 \<or> t = 1 \<or> t = 2")
    case True
    with eq show ?thesis by (auto simp: bt_transport_text_eq split: if_splits)
  next
    case False
    with eq have "decimal_digits (unat s) = decimal_digits (unat t)"
      by (simp add: bt_transport_text_eq)
    then show ?thesis by (simp add: decimal_digits_inject u8_eq_iff_unat)
  qed
qed

text \<open>C7: every label \<^verbatim>\<open>bt_transport_text\<close> returns has 10 to 19 characters.\<close>

theorem bt_transport_text_length:
  "10 \<le> length (bt_transport_text t) \<and> length (bt_transport_text t) \<le> 19"
proof -
  have "1 \<le> length (decimal_digits (unat t))"
    by (simp add: Suc_le_eq)
  with length_decimal_digits_unat [of t] show ?thesis
    by (simp add: bt_transport_text_eq)
qed

end
